theory Spec2Isabelle
  imports Main "HOL-Library.Word"
begin

section \<open>JavaScript values and strings\<close>

text \<open>
  A JavaScript string is a sequence of UTF-16 code units, and \<open>length\<close>,
  \<open>substring\<close>, \<open>split\<close> and the regular expressions of
  \<^verbatim>\<open>chatSetparSSO.js\<close> all work on code units. A string literal of the source is
  written \<open>ascii ''...''\<close>.
\<close>

type_synonym unit16 = "16 word"
type_synonym jsstring = "unit16 list"

definition ascii :: "string \<Rightarrow> jsstring" where
  "ascii s = map (\<lambda>c. of_nat (of_char c)) s"

text \<open>
  The values a decoded token payload can hold. A number is kept as what the source can
  observe of it: whether it is truthy (neither 0 nor NaN) and the text \<open>String()\<close>
  gives; an object or array (always truthy) as the text \<open>String()\<close> gives.
  An absent field reads as \<open>JUndefined\<close>. An object whose conversion to a string
  throws (one that carries a \<open>toString\<close> of its own that is not a function) has no
  value here: the source answers 500 to a payload that holds one in \<open>userId\<close> or
  \<open>email\<close>, and nothing below speaks about such a payload.
\<close>

datatype jsval =
    JUndefined
  | JNull
  | JBool bool
  | JStr jsstring
  | JNum bool jsstring
  | JObj jsstring

fun truthy :: "jsval \<Rightarrow> bool" where
  "truthy JUndefined = False"
| "truthy JNull = False"
| "truthy (JBool b) = b"
| "truthy (JStr s) = (s \<noteq> [])"
| "truthy (JNum nonzero _) = nonzero"
| "truthy (JObj _) = True"

text \<open>\<open>String(v)\<close>.\<close>

fun toStr :: "jsval \<Rightarrow> jsstring" where
  "toStr JUndefined = ascii ''undefined''"
| "toStr JNull = ascii ''null''"
| "toStr (JBool b) = (if b then ascii ''true'' else ascii ''false'')"
| "toStr (JStr s) = s"
| "toStr (JNum _ text) = text"
| "toStr (JObj text) = text"

text \<open>\<open>a || b\<close>.\<close>

definition jsOr :: "jsval \<Rightarrow> jsval \<Rightarrow> jsval" where
  "jsOr a b = (if truthy a then a else b)"

text \<open>
  \<open>s.toLowerCase()\<close>: \<open>A\<close>..\<open>Z\<close> go to \<open>a\<close>..\<open>z\<close>. Two code units
  outside ASCII have a lower-case form that holds an ASCII letter: U+0130 (capital I with
  dot above) becomes \<open>i\<close> followed by U+0307, and U+212A (the Kelvin sign) becomes
  \<open>k\<close>. Every other code unit from U+0080 on lower-cases to code units from U+0080 on;
  they are left as they are here, since each use of \<open>toLowerCase\<close> in this file is
  followed by a membership test against ASCII strings or by a \<open>replace\<close> that
  deletes every code unit outside ASCII.
\<close>

definition lowerUnit :: "unit16 \<Rightarrow> jsstring" where
  "lowerUnit c =
     (if 0x41 \<le> c \<and> c \<le> 0x5A then [c + 0x20]
      else if c = 0x130 then [0x69, 0x307]
      else if c = 0x212A then [0x6B]
      else [c])"

definition toLowerCase :: "jsstring \<Rightarrow> jsstring" where
  "toLowerCase s = concat (map lowerUnit s)"

text \<open>\<open>s.trim()\<close> removes white space and line terminators at both ends.\<close>

definition isWhiteSpace :: "unit16 \<Rightarrow> bool" where
  "isWhiteSpace c \<longleftrightarrow>
     (0x09 \<le> c \<and> c \<le> 0x0D) \<or> c = 0x20 \<or> c = 0xA0 \<or> c = 0x1680
     \<or> (0x2000 \<le> c \<and> c \<le> 0x200A) \<or> c = 0x2028 \<or> c = 0x2029
     \<or> c = 0x202F \<or> c = 0x205F \<or> c = 0x3000 \<or> c = 0xFEFF"

definition trim :: "jsstring \<Rightarrow> jsstring" where
  "trim s = rev (dropWhile isWhiteSpace (rev (dropWhile isWhiteSpace s)))"

text \<open>The character classes \<open>[a-z0-9]\<close> and \<open>[a-z0-9._@-]\<close>.\<close>

definition alnumLower :: "unit16 \<Rightarrow> bool" where
  "alnumLower c \<longleftrightarrow> (0x61 \<le> c \<and> c \<le> 0x7A) \<or> (0x30 \<le> c \<and> c \<le> 0x39)"

definition legacyChar :: "unit16 \<Rightarrow> bool" where
  "legacyChar c \<longleftrightarrow> alnumLower c \<or> c = 0x2E \<or> c = 0x5F \<or> c = 0x40 \<or> c = 0x2D"

section \<open>The pure functions of chatSetparSSO.js\<close>

text \<open>An environment variable is a string or absent.\<close>

definition isTruthyEnv :: "jsstring option \<Rightarrow> bool" where
  "isTruthyEnv v =
     (case v of
        None \<Rightarrow> False
      | Some s \<Rightarrow>
          (let normalized = toLowerCase (trim s)
           in normalized \<notin> set [[], ascii ''0'', ascii ''false'', ascii ''no'', ascii ''off'']))"

text \<open>
  \<open>legacyUsernameFromEmail(email = "")\<close>: the default replaces an undefined argument
  only. \<open>split("@")[0]\<close> is the text before the first \<open>@\<close>, the whole string when
  there is none.
\<close>

definition legacyUsernameFromEmail :: "jsval \<Rightarrow> jsstring" where
  "legacyUsernameFromEmail email =
     take 32
       (filter legacyChar
         (toLowerCase
           (takeWhile (\<lambda>c. c \<noteq> 0x40)
             (toStr (if email = JUndefined then JStr [] else email)))))"

text \<open>The fields of the decoded payload that the source reads.\<close>

record payload =
  userId :: jsval
  email :: jsval
  isSuperAdmin :: jsval
  isOwner :: jsval
  role :: jsval

definition stableExternalId :: "payload \<Rightarrow> jsstring" where
  "stableExternalId p =
     filter alnumLower (toLowerCase (toStr (jsOr (userId p) (JStr []))))"

definition usernameFromPayload :: "payload \<Rightarrow> jsstring option" where
  "usernameFromPayload p =
     (if stableExternalId p \<noteq> [] then
        Some (take 32 (ascii ''setpar_'' @ stableExternalId p))
      else
        (let fallbackFromEmail = legacyUsernameFromEmail (email p)
         in if fallbackFromEmail = [] then None
            else Some (take 32 (ascii ''setpar_'' @ fallbackFromEmail))))"

text \<open>
  \<open>a === b\<close> where \<open>b\<close> is a boolean or string literal: the same type and the same
  value.
\<close>

fun strictEq :: "jsval \<Rightarrow> jsval \<Rightarrow> bool" where
  "strictEq (JBool a) (JBool b) = (a = b)"
| "strictEq (JStr a) (JStr b) = (a = b)"
| "strictEq _ _ = False"

definition mapSetparRoleToAnything :: "payload \<Rightarrow> jsstring" where
  "mapSetparRoleToAnything p =
     (let isSetparSuperAdmin =
            (strictEq (isSuperAdmin p) (JBool True)
             \<or> strictEq (isOwner p) (JBool True)
             \<or> strictEq (role p) (JStr (ascii ''superadmin'')))
      in if isSetparSuperAdmin then ascii ''manager'' else ascii ''default'')"

section \<open>The collaborators of the middleware\<close>

text \<open>
  The user store, the settings store, the temporary-token store, the token verifier,
  the random generator and the process environment are not part of
  \<^verbatim>\<open>chatSetparSSO.js\<close>; the middleware is modelled over any implementation of
  them. Each stateful call takes the state \<open>'w\<close> of the outside world and returns the
  new one, so that two reads of the same key may differ (another request may have written
  in between). A call that throws, or whose promise is rejected, returns \<open>Inl\<close> with
  the \<open>name\<close> of the error. Console output is not modelled.
\<close>

record user =
  user_id :: nat
  user_username :: jsstring
  user_role :: jsstring

datatype thrown = Thrown string

text \<open>The second argument of \<open>User._update\<close>.\<close>

datatype update = SetUsername jsstring | SetRole jsstring

record 'w deps =
  CHAT_SETPAR_JWT_SECRET :: "jsstring option"
  CHAT_SETPAR_DEFAULT_MULTI_USER :: "jsstring option"
  CHAT_SETPAR_AUTO_ENABLE_MULTI_USER :: "jsstring option"
  jwtVerify :: "jsval \<Rightarrow> jsstring \<Rightarrow> thrown + payload"
  isMultiUserMode :: "'w \<Rightarrow> (thrown + bool) \<times> 'w"
  updateSettings :: "'w \<Rightarrow> (thrown + bool) \<times> 'w"
  userGet :: "jsstring \<Rightarrow> 'w \<Rightarrow> (thrown + user option) \<times> 'w"
  userUpdate :: "nat \<Rightarrow> update \<Rightarrow> 'w \<Rightarrow> (thrown + user option) \<times> 'w"
  userCreate :: "jsstring \<Rightarrow> jsstring \<Rightarrow> jsstring \<Rightarrow> 'w \<Rightarrow> (thrown + user option \<times> jsval) \<times> 'w"
  filterFields :: "user \<Rightarrow> user"
  randomBytesHex :: "nat \<Rightarrow> 'w \<Rightarrow> (thrown + jsstring) \<times> 'w"
  issue :: "nat \<Rightarrow> 'w \<Rightarrow> (thrown + jsval \<times> jsval) \<times> 'w"
  encodeURIComponent :: "jsstring \<Rightarrow> thrown + jsstring"

text \<open>
  \<open>updateSettings\<close> is \<open>SystemSettings._updateSettings({multi_user_mode: true,
  onboarding_complete: true})\<close>, the only update the source asks for, and returns its
  \<open>success\<close>; \<open>userUpdate\<close> returns the \<open>user\<close> of \<open>User._update\<close>'s result,
  \<open>userCreate\<close> the \<open>user\<close> and the \<open>error\<close> of \<open>User.create\<close>'s, \<open>issue\<close>
  the \<open>token\<close> and the \<open>error\<close> of \<open>TemporaryAuthToken.issue\<close>'s.

  Every call to a store is recorded, in order, in a trace.
\<close>

datatype event =
    IsMultiUserMode
  | UpdateSettings
  | UserGet jsstring
  | UserUpdate nat update
  | RandomBytes nat
  | UserCreate jsstring jsstring jsstring
  | Issue nat

record 'w st =
  world :: 'w
  trace :: "event list"

definition call :: "event \<Rightarrow> ('w \<Rightarrow> (thrown + 'a) \<times> 'w) \<Rightarrow> 'w st \<Rightarrow> (thrown + 'a) \<times> 'w st" where
  "call ev f s =
     (case f (world s) of (r, w') \<Rightarrow> (r, \<lparr>world = w', trace = trace s @ [ev]\<rparr>))"

text \<open>
  \<open>await r k\<close>: continue with \<open>k\<close> on the value of \<open>r\<close>; an error thrown by
  \<open>r\<close> leaves the rest out.
\<close>

definition await :: "(thrown + 'a) \<times> 's \<Rightarrow> ('a \<Rightarrow> 's \<Rightarrow> (thrown + 'b) \<times> 's) \<Rightarrow> (thrown + 'b) \<times> 's" where
  "await r k = (case r of (Inl e, s) \<Rightarrow> (Inl e, s) | (Inr a, s) \<Rightarrow> k a s)"

section \<open>Enabling multi-user mode\<close>

definition enableMultiUserMode :: "'w deps \<Rightarrow> 'w st \<Rightarrow> (thrown + bool) \<times> 'w st" where
  "enableMultiUserMode d s =
     await (call UpdateSettings (updateSettings d) s) (\<lambda>success s.
       if \<not> success then (Inr False, s) else (Inr True, s))"

definition ensureSetparDefaultMultiUserMode :: "'w deps \<Rightarrow> 'w st \<Rightarrow> (thrown + bool) \<times> 'w st" where
  "ensureSetparDefaultMultiUserMode d s =
     await (call IsMultiUserMode (isMultiUserMode d) s) (\<lambda>alreadyEnabled s.
       if alreadyEnabled then (Inr True, s)
       else if \<not> isTruthyEnv (CHAT_SETPAR_DEFAULT_MULTI_USER d) then (Inr False, s)
       else enableMultiUserMode d s)"

definition ensureMultiUserModeEnabled :: "'w deps \<Rightarrow> 'w st \<Rightarrow> (thrown + bool) \<times> 'w st" where
  "ensureMultiUserModeEnabled d s =
     await (call IsMultiUserMode (isMultiUserMode d) s) (\<lambda>alreadyEnabled s.
       if alreadyEnabled then (Inr True, s)
       else
         await (if isTruthyEnv (CHAT_SETPAR_DEFAULT_MULTI_USER d)
                then enableMultiUserMode d s else (Inr False, s)) (\<lambda>enabledByDefault s.
           if enabledByDefault then (Inr True, s)
           else if \<not> isTruthyEnv (CHAT_SETPAR_AUTO_ENABLE_MULTI_USER d) then (Inr False, s)
           else enableMultiUserMode d s))"

section \<open>The middleware\<close>

record request =
  sso_token :: jsval
  path :: jsstring

text \<open>
  What the middleware does with the request: \<open>next()\<close>,
  \<open>res.status(code).json({error})\<close> or \<open>res.redirect(code, url)\<close>.
\<close>

datatype outcome = Next | Json nat jsstring | Redirect nat jsstring

text \<open>
  Lines 139 to 166: the lookup under the derived username and, when it finds nobody, the
  migration of a user stored under the legacy username. The result is the variable
  \<open>user\<close> as line 168 finds it.
\<close>

definition resolveUser :: "'w deps \<Rightarrow> jsval \<Rightarrow> jsstring \<Rightarrow> 'w st \<Rightarrow> (thrown + user option) \<times> 'w st" where
  "resolveUser d emailv username s =
     await (call (UserGet username) (userGet d username) s) (\<lambda>user s.
       if user \<noteq> None then (Inr user, s)
       else
         (let legacyUsername = legacyUsernameFromEmail emailv
          in if legacyUsername \<noteq> [] \<and> legacyUsername \<noteq> username then
               await (call (UserGet legacyUsername) (userGet d legacyUsername) s) (\<lambda>legacyUser s.
                 case legacyUser of
                   None \<Rightarrow> (Inr None, s)
                 | Some lu \<Rightarrow>
                     await (call (UserGet username) (userGet d username) s) (\<lambda>usernameAlreadyTaken s.
                       if usernameAlreadyTaken = None then
                         await (call (UserUpdate (user_id lu) (SetUsername username))
                                  (userUpdate d (user_id lu) (SetUsername username)) s) (\<lambda>renamedUser s.
                           case renamedUser of
                             Some ru \<Rightarrow> (Inr (Some (filterFields d ru)), s)
                           | None \<Rightarrow> (Inr None, s))
                       else (Inr (Some lu), s)))
             else (Inr None, s)))"

text \<open>
  Lines 168 to 199: create the user when there is none, or bring the role of the one
  found up to date. \<open>Inl\<close> is a response sent from inside the block, \<open>Inr\<close> the
  variable \<open>user\<close> after it (\<open>None\<close> when \<open>User.create\<close> gave neither an error nor a
  user).
\<close>

definition provisionUser ::
  "'w deps \<Rightarrow> jsstring \<Rightarrow> jsstring \<Rightarrow> user option \<Rightarrow> 'w st \<Rightarrow> (thrown + outcome + user option) \<times> 'w st" where
  "provisionUser d username mappedRole user s =
     (case user of
        None \<Rightarrow>
          await (call (RandomBytes 32) (randomBytesHex d 32) s) (\<lambda>randomPassword s.
            await (call (UserCreate username randomPassword mappedRole)
                     (userCreate d username randomPassword mappedRole) s) (\<lambda>(newUser, error) s.
              if truthy error then (Inr (Inl (Json 500 (ascii ''Failed to create SSO user.''))), s)
              else (Inr (Inr newUser), s)))
      | Some u \<Rightarrow>
          if user_role u \<noteq> mappedRole then
            await (call (UserUpdate (user_id u) (SetRole mappedRole))
                     (userUpdate d (user_id u) (SetRole mappedRole)) s) (\<lambda>updatedUser s.
              case updatedUser of
                None \<Rightarrow> (Inr (Inl (Json 500 (ascii ''Failed to sync SSO user role.''))), s)
              | Some uu \<Rightarrow> (Inr (Inr (Some (filterFields d uu))), s))
          else (Inr (Inr (Some u)), s))"

text \<open>
  Lines 201 to 214. Reading \<open>user.id\<close> of a missing user throws a \<open>TypeError\<close>
  before \<open>TemporaryAuthToken.issue\<close> is called.
\<close>

definition bridgeSession :: "'w deps \<Rightarrow> request \<Rightarrow> user option \<Rightarrow> 'w st \<Rightarrow> (thrown + outcome) \<times> 'w st" where
  "bridgeSession d req user s =
     (case user of
        None \<Rightarrow> (Inl (Thrown ''TypeError''), s)
      | Some u \<Rightarrow>
          await (call (Issue (user_id u)) (issue d (user_id u)) s) (\<lambda>(tempToken, tempTokenError) s.
            if truthy tempTokenError \<or> \<not> truthy tempToken then
              (Inr (Json 500 (ascii ''Failed to create SSO session.'')), s)
            else
              (let redirectTo =
                     (if path req \<noteq> [] \<and> path req \<noteq> ascii ''/sso/simple'' then path req
                      else ascii ''/'')
               in await (encodeURIComponent d (toStr tempToken), s) (\<lambda>t s.
                    await (encodeURIComponent d redirectTo, s) (\<lambda>r s.
                      (Inr (Redirect 302
                              (ascii ''/sso/simple?token='' @ t @ ascii ''&redirectTo='' @ r)), s))))))"

text \<open>Lines 113 to 214, the body of the \<open>try\<close> block.\<close>

definition tryBlock :: "'w deps \<Rightarrow> request \<Rightarrow> jsstring \<Rightarrow> 'w st \<Rightarrow> (thrown + outcome) \<times> 'w st" where
  "tryBlock d req jwtSecret s =
     await (jwtVerify d (sso_token req) jwtSecret, s) (\<lambda>payload s.
       if \<not> truthy (userId payload) \<or> \<not> truthy (email payload) then
         (Inr (Json 401 (ascii ''Invalid SSO token payload.'')), s)
       else
         await (ensureMultiUserModeEnabled d s) (\<lambda>multiUserMode s.
           if \<not> multiUserMode then
             (Inr (Json 403 (ascii ''Multi-user mode must be enabled for SSO.'')), s)
           else
             (case usernameFromPayload payload of
                None \<Rightarrow> (Inr (Json 401 (ascii ''Invalid SSO token payload.'')), s)
              | Some username \<Rightarrow>
                  if username = [] then (Inr (Json 401 (ascii ''Invalid SSO token payload.'')), s)
                  else
                    (let mappedRole = mapSetparRoleToAnything payload
                     in await (resolveUser d (email payload) username s) (\<lambda>user s.
                          await (provisionUser d username mappedRole user s) (\<lambda>r s.
                            case r of
                              Inl response \<Rightarrow> (Inr response, s)
                            | Inr user \<Rightarrow> bridgeSession d req user s))))))"

text \<open>The \<open>catch\<close> block.\<close>

fun catchBlock :: "thrown \<Rightarrow> outcome" where
  "catchBlock (Thrown name) =
     (if name = ''TokenExpiredError'' then Json 401 (ascii ''SSO token expired.'')
      else if name = ''JsonWebTokenError'' then Json 401 (ascii ''Invalid SSO token.'')
      else Json 500 (ascii ''SSO authentication failed.''))"

definition tryCatch :: "(thrown + outcome) \<times> 's \<Rightarrow> outcome \<times> 's" where
  "tryCatch r =
     (case r of
        (Inl err, s) \<Rightarrow> (catchBlock err, s)
      | (Inr response, s) \<Rightarrow> (response, s))"

definition chatSetparSSO :: "'w deps \<Rightarrow> request \<Rightarrow> 'w st \<Rightarrow> outcome \<times> 'w st" where
  "chatSetparSSO d req s =
     (if \<not> truthy (sso_token req) then (Next, s)
      else
        (case CHAT_SETPAR_JWT_SECRET d of
           None \<Rightarrow> (Next, s)
         | Some jwtSecret \<Rightarrow>
             if jwtSecret = [] then (Next, s)
             else tryCatch (tryBlock d req jwtSecret s)))"

section \<open>The legacy fallback as the specification words it\<close>

text \<open>
  Rule 2 of the specification's username derivation: the local part of the email, in lower
  case, without the characters outside \<open>[a-z0-9._@-]\<close>, cut to 32 characters; when that
  is not empty, \<open>"setpar_"\<close> in front of it, cut to 32 characters.
\<close>

definition specLegacyFallback :: "jsval \<Rightarrow> jsstring option" where
  "specLegacyFallback emailv =
     (let localpart =
            take 32 (filter legacyChar (toLowerCase (takeWhile (\<lambda>c. c \<noteq> 0x40) (toStr emailv))))
      in if localpart = [] then None else Some (take 32 (ascii ''setpar_'' @ localpart)))"

text \<open>The characters \<open>[a-z0-9_]\<close> that the specification allows in a derived username.\<close>

definition specUsernameChar :: "unit16 \<Rightarrow> bool" where
  "specUsernameChar c \<longleftrightarrow> alnumLower c \<or> c = 0x5F"

section \<open>An in-memory implementation of the collaborators\<close>

text \<open>
  A small store to run the middleware on: a list of users with unique usernames, the
  multi-user flag, two switches that make the settings update and the renaming of a user
  fail, and \<open>arrivals\<close>, the users that other requests add while this one runs (the
  first batch right after the first lookup, and so on).
\<close>

record mem =
  multi_user_mode :: bool
  settings_writable :: bool
  users :: "user list"
  renames_allowed :: bool
  arrivals :: "user list list"

definition memGet :: "jsstring \<Rightarrow> mem \<Rightarrow> (thrown + user option) \<times> mem" where
  "memGet name w =
     (Inr (find (\<lambda>u. user_username u = name) (users w)),
      case arrivals w of
        [] \<Rightarrow> w
      | a # rest \<Rightarrow> w\<lparr>users := users w @ a, arrivals := rest\<rparr>)"

definition memUpdate :: "nat \<Rightarrow> update \<Rightarrow> mem \<Rightarrow> (thrown + user option) \<times> mem" where
  "memUpdate i upd w =
     (case find (\<lambda>u. user_id u = i) (users w) of
        None \<Rightarrow> (Inr None, w)
      | Some u \<Rightarrow>
          (case upd of
             SetUsername name \<Rightarrow>
               if renames_allowed w \<and> find (\<lambda>v. user_username v = name) (users w) = None then
                 (Inr (Some (u\<lparr>user_username := name\<rparr>)),
                  w\<lparr>users := map (\<lambda>v. if user_id v = i then v\<lparr>user_username := name\<rparr> else v) (users w)\<rparr>)
               else (Inr None, w)
           | SetRole r \<Rightarrow>
               (Inr (Some (u\<lparr>user_role := r\<rparr>)),
                w\<lparr>users := map (\<lambda>v. if user_id v = i then v\<lparr>user_role := r\<rparr> else v) (users w)\<rparr>)))"

definition memCreate :: "jsstring \<Rightarrow> jsstring \<Rightarrow> jsstring \<Rightarrow> mem \<Rightarrow> (thrown + user option \<times> jsval) \<times> mem" where
  "memCreate name password r w =
     (if find (\<lambda>v. user_username v = name) (users w) \<noteq> None then
        (Inr (None, JStr (ascii ''username taken'')), w)
      else
        (let u = \<lparr>user_id = Suc (fold max (map user_id (users w)) 0),
                  user_username = name, user_role = r\<rparr>
         in (Inr (Some u, JNull), w\<lparr>users := users w @ [u]\<rparr>)))"

text \<open>
  \<open>encodeURIComponent\<close>: the text is read as UTF-16, and a surrogate without its
  partner throws a \<open>URIError\<close>; each code point is written in UTF-8, an unreserved
  ASCII character as it is and every other byte as \<open>%XX\<close>.
\<close>

definition hexDigit :: "32 word \<Rightarrow> unit16" where
  "hexDigit n = ucast (if n < 10 then 0x30 + n else 0x37 + n)"

definition unreserved :: "unit16 \<Rightarrow> bool" where
  "unreserved c \<longleftrightarrow>
     (0x41 \<le> c \<and> c \<le> 0x5A) \<or> alnumLower c
     \<or> c \<in> set [0x2D, 0x5F, 0x2E, 0x21, 0x7E, 0x2A, 0x27, 0x28, 0x29]"

fun codePoints :: "jsstring \<Rightarrow> thrown + 32 word list" where
  "codePoints [] = Inr []"
| "codePoints (c # cs) =
     (if 0xD800 \<le> c \<and> c \<le> 0xDBFF then
        (case cs of
           [] \<Rightarrow> Inl (Thrown ''URIError'')
         | l # rest \<Rightarrow>
             if 0xDC00 \<le> l \<and> l \<le> 0xDFFF then
               (case codePoints rest of
                  Inl e \<Rightarrow> Inl e
                | Inr ps \<Rightarrow>
                    Inr ((0x10000 + (ucast c - 0xD800) * 0x400 + (ucast l - 0xDC00)) # ps))
             else Inl (Thrown ''URIError''))
      else if 0xDC00 \<le> c \<and> c \<le> 0xDFFF then Inl (Thrown ''URIError'')
      else
        (case codePoints cs of
           Inl e \<Rightarrow> Inl e
         | Inr ps \<Rightarrow> Inr (ucast c # ps)))"

definition utf8 :: "32 word \<Rightarrow> 32 word list" where
  "utf8 p =
     (if p < 0x80 then [p]
      else if p < 0x800 then [0xC0 + p div 0x40, 0x80 + p mod 0x40]
      else if p < 0x10000 then
        [0xE0 + p div 0x1000, 0x80 + (p div 0x40) mod 0x40, 0x80 + p mod 0x40]
      else
        [0xF0 + p div 0x40000, 0x80 + (p div 0x1000) mod 0x40,
         0x80 + (p div 0x40) mod 0x40, 0x80 + p mod 0x40])"

definition percentEncode :: "jsstring \<Rightarrow> thrown + jsstring" where
  "percentEncode s =
     (case codePoints s of
        Inl e \<Rightarrow> Inl e
      | Inr ps \<Rightarrow>
          Inr (concat (map (\<lambda>p. if p < 0x80 \<and> unreserved (ucast p) then [ucast p]
                                  else concat (map (\<lambda>b. [0x25, hexDigit (b div 16), hexDigit (b mod 16)])
                                                 (utf8 p))) ps)))"

text \<open>
  The collaborators over the in-memory store. The verifier accepts every token and
  returns the payload \<open>p\<close>; the random password and the temporary token are fixed.
\<close>

definition memDeps :: "payload \<Rightarrow> jsstring option \<Rightarrow> jsstring option \<Rightarrow> mem deps" where
  "memDeps p defaultSwitch autoSwitch =
     \<lparr>CHAT_SETPAR_JWT_SECRET = Some (ascii ''secret''),
      CHAT_SETPAR_DEFAULT_MULTI_USER = defaultSwitch,
      CHAT_SETPAR_AUTO_ENABLE_MULTI_USER = autoSwitch,
      jwtVerify = (\<lambda>token secret. Inr p),
      isMultiUserMode = (\<lambda>w. (Inr (multi_user_mode w), w)),
      updateSettings = (\<lambda>w. if settings_writable w then (Inr True, w\<lparr>multi_user_mode := True\<rparr>)
                              else (Inr False, w)),
      userGet = memGet,
      userUpdate = memUpdate,
      userCreate = memCreate,
      filterFields = (\<lambda>u. u),
      randomBytesHex = (\<lambda>n w. (Inr (replicate (2 * n) 0x61), w)),
      issue = (\<lambda>i w. (Inr (JStr (ascii ''t0k3n''), JNull), w)),
      encodeURIComponent = percentEncode\<rparr>"

definition memStart :: "mem \<Rightarrow> mem st" where
  "memStart w = \<lparr>world = w, trace = []\<rparr>"

definition ssoRequest :: request where
  "ssoRequest = \<lparr>sso_token = JStr (ascii ''signed.jwt.token''), path = ascii ''/workspace''\<rparr>"

text \<open>The payloads of the specification's examples.\<close>

definition emailOnly :: payload where
  "emailOnly =
     \<lparr>userId = JUndefined, email = JStr (ascii ''Bob.Smith@x.com''),
      isSuperAdmin = JUndefined, isOwner = JUndefined, role = JUndefined\<rparr>"

definition bob :: payload where
  "bob =
     \<lparr>userId = JStr (ascii ''U1''), email = JStr (ascii ''Bob.Smith@x.com''),
      isSuperAdmin = JUndefined, isOwner = JUndefined, role = JUndefined\<rparr>"

definition store :: "user list \<Rightarrow> mem" where
  "store us =
     \<lparr>multi_user_mode = True, settings_writable = True, users = us,
      renames_allowed = True, arrivals = []\<rparr>"

definition legacyBob :: user where
  "legacyBob = \<lparr>user_id = 7, user_username = ascii ''bob.smith'', user_role = ascii ''default''\<rparr>"

text \<open>
  Stores and payloads for the runs below: a store in single-user mode whose settings cannot
  be written; a store into which another request inserts the user \<open>setpar_u1\<close> between
  the second and the third lookup, and the same store once that has happened; a store
  that refuses to rename; the legacy user once renamed; two payloads with the identifier \<open>!!!\<close> and different
  emails; a payload whose two flags are truthy without being \<open>true\<close>.
\<close>

definition singleTenant :: mem where
  "singleTenant = (store [])\<lparr>multi_user_mode := False, settings_writable := False\<rparr>"

definition newcomer :: user where
  "newcomer = \<lparr>user_id = 9, user_username = ascii ''setpar_u1'', user_role = ascii ''default''\<rparr>"

definition racing :: mem where
  "racing = (store [legacyBob])\<lparr>arrivals := [[], [newcomer]]\<rparr>"

definition alice :: payload where
  "alice =
     \<lparr>userId = JStr (ascii ''A-42''), email = JStr (ascii ''alice@corp.example''),
      isSuperAdmin = JUndefined, isOwner = JBool True, role = JUndefined\<rparr>"

definition legacyAlice :: user where
  "legacyAlice = \<lparr>user_id = 3, user_username = ascii ''alice'', user_role = ascii ''default''\<rparr>"

definition settled :: mem where
  "settled = store [legacyBob, newcomer]"

definition readOnlyNames :: mem where
  "readOnlyNames = (store [legacyAlice])\<lparr>renames_allowed := False\<rparr>"

definition freshAlice :: user where
  "freshAlice = \<lparr>user_id = 4, user_username = ascii ''setpar_a42'', user_role = ascii ''manager''\<rparr>"

definition renamedBob :: user where
  "renamedBob = legacyBob\<lparr>user_username := ascii ''setpar_u1''\<rparr>"



definition truthyFlags :: payload where
  "truthyFlags =
     \<lparr>userId = JStr (ascii ''U1''), email = JStr (ascii ''Bob.Smith@x.com''),
      isSuperAdmin = JStr (ascii ''true''), isOwner = JNum True (ascii ''1''),
      role = JStr (ascii ''admin'')\<rparr>"

section \<open>Auxiliary facts\<close>

lemma call_eq:
  "f (world s) = (r, w') \<Longrightarrow> call ev f s = (r, \<lparr>world = w', trace = trace s @ [ev]\<rparr>)"
  by (simp add: call_def)

lemma await_Inr [simp]: "await (Inr a, s) k = k a s"
  by (simp add: await_def)

lemma await_Inl [simp]: "await (Inl e, s) k = (Inl e, s)"
  by (simp add: await_def)

lemma take32_prefix: "take 32 (ascii ''setpar_'' @ xs) = ascii ''setpar_'' @ take 25 xs"
  by (simp add: ascii_def)

lemma length_prefix: "length (ascii ''setpar_'') = 7"
  by (simp add: ascii_def)

lemma usernameFromPayload_alt:
  "usernameFromPayload p =
     (if stableExternalId p \<noteq> [] then Some (ascii ''setpar_'' @ take 25 (stableExternalId p))
      else if legacyUsernameFromEmail (email p) = [] then None
      else Some (ascii ''setpar_'' @ take 25 (legacyUsernameFromEmail (email p))))"
  unfolding usernameFromPayload_def Let_def take32_prefix by (rule refl)

lemma lowerUnit_no_at: "c \<noteq> 0x40 \<Longrightarrow> 0x40 \<notin> set (lowerUnit c)"
  by (auto simp: lowerUnit_def)

lemma toLowerCase_no_at: "0x40 \<notin> set s \<Longrightarrow> 0x40 \<notin> set (toLowerCase s)"
  by (induction s) (auto simp: toLowerCase_def dest: lowerUnit_no_at)

lemma takeWhile_no_at: "(0x40::unit16) \<notin> set (takeWhile (\<lambda>c. c \<noteq> 0x40) s)"
  by (auto dest: set_takeWhileD)

lemma filtered_no_at:
  "0x40 \<notin> set l \<Longrightarrow> \<forall>c \<in> set (take 32 (filter legacyChar l)). legacyChar c \<and> c \<noteq> 0x40"
  by (auto dest!: in_set_takeD)

lemma legacy_chars: "list_all (\<lambda>c. legacyChar c \<and> c \<noteq> 0x40) (legacyUsernameFromEmail e)"
  unfolding legacyUsernameFromEmail_def list_all_iff
  by (rule filtered_no_at) (rule toLowerCase_no_at, rule takeWhile_no_at)

lemma stable_chars: "list_all alnumLower (stableExternalId p)"
  by (simp add: stableExternalId_def list_all_iff)

lemma list_all_take: "list_all P xs \<Longrightarrow> list_all P (take n xs)"
  by (auto simp: list_all_iff dest: in_set_takeD)

lemma alnum_legacy: "alnumLower c \<Longrightarrow> legacyChar c \<and> c \<noteq> 0x40"
  by (auto simp: legacyChar_def alnumLower_def)

lemma bridgeSession_trace:
  "trace (snd (bridgeSession d req u s)) =
     trace s @ (case u of None \<Rightarrow> [] | Some x \<Rightarrow> [Issue (user_id x)])"
proof (cases u)
  case None
  then show ?thesis by (simp add: bridgeSession_def)
next
  case (Some x)
  obtain r w' where i: "issue d (user_id x) (world s) = (r, w')"
    by (cases "issue d (user_id x) (world s)")
  show ?thesis
  proof (cases r)
    case (Inl e)
    with Some i show ?thesis by (simp add: bridgeSession_def call_def)
  next
    case (Inr te)
    obtain tok err where te: "te = (tok, err)" by (cases te)
    show ?thesis
    proof (cases "truthy err \<or> \<not> truthy tok")
      case True
      with Some i Inr te show ?thesis by (auto simp: bridgeSession_def call_def)
    next
      case False
      let ?to = "if path req \<noteq> [] \<and> path req \<noteq> ascii ''/sso/simple'' then path req else ascii ''/''"
      show ?thesis
      proof (cases "encodeURIComponent d (toStr tok)")
        case (Inl e)
        with Some i Inr te False show ?thesis
          by (simp add: bridgeSession_def call_def Let_def)
      next
        case a: (Inr t)
        show ?thesis
        proof (cases "encodeURIComponent d ?to")
          case (Inl e)
          with Some i Inr te False a show ?thesis
            by (simp add: bridgeSession_def call_def Let_def)
        next
          case b: (Inr r')
          with Some i Inr te False a show ?thesis
            by (simp add: bridgeSession_def call_def Let_def)
        qed
      qed
    qed
  qed
qed

lemma tryCatch_snd: "snd (tryCatch r) = snd r"
  by (cases r; cases "fst r") (auto simp: tryCatch_def)

section \<open>The role mapper\<close>

text \<open>
  Claim C5. The role mapper is a function of the payload alone. It returns the elevated
  role \<open>manager\<close> exactly when the super-admin flag is \<open>true\<close>, or the owner flag is
  \<open>true\<close>, or the role is the string \<open>superadmin\<close>; it returns the standard role
  \<open>default\<close> for every other payload; it returns nothing else.
\<close>

theorem mapSetparRoleToAnything_two_roles:
  "(mapSetparRoleToAnything p = ascii ''manager''
      \<longleftrightarrow> isSuperAdmin p = JBool True \<or> isOwner p = JBool True
          \<or> role p = JStr (ascii ''superadmin''))
   \<and> (mapSetparRoleToAnything p = ascii ''default''
      \<longleftrightarrow> \<not> (isSuperAdmin p = JBool True \<or> isOwner p = JBool True
             \<or> role p = JStr (ascii ''superadmin'')))
   \<and> mapSetparRoleToAnything p \<in> {ascii ''manager'', ascii ''default''}"
proof -
  have eq: "strictEq v (JBool True) \<longleftrightarrow> v = JBool True" for v by (cases v) auto
  have eqs: "strictEq v (JStr t) \<longleftrightarrow> v = JStr t" for v t by (cases v) auto
  have ne: "ascii ''manager'' \<noteq> ascii ''default''" by (simp add: ascii_def)
  show ?thesis using ne by (auto simp: mapSetparRoleToAnything_def eq eqs)
qed

text \<open>
  Claim C10. The two flags are compared with \<open>=== true\<close>: when neither
  \<open>isSuperAdmin\<close> nor \<open>isOwner\<close> is the boolean \<open>true\<close> (so also when they hold
  a truthy value of another type, such as the string \<open>"true"\<close> or the number 1), the
  payload maps to the standard role unless its role is exactly the string
  \<open>superadmin\<close>.
\<close>

theorem flags_strict_equality:
  assumes "isSuperAdmin p \<noteq> JBool True" and "isOwner p \<noteq> JBool True"
  shows "mapSetparRoleToAnything p =
           (if role p = JStr (ascii ''superadmin'') then ascii ''manager'' else ascii ''default'')"
proof -
  have eq: "strictEq v (JBool True) \<longleftrightarrow> v = JBool True" for v by (cases v) auto
  have eqs: "strictEq v (JStr t) \<longleftrightarrow> v = JStr t" for v t by (cases v) auto
  show ?thesis using assms by (simp add: mapSetparRoleToAnything_def eq eqs)
qed

text \<open>With \<open>isSuperAdmin = "true"\<close> and \<open>isOwner = 1\<close>, both truthy.\<close>

theorem flags_strict_equality_witness:
  "truthy (isSuperAdmin truthyFlags) \<and> truthy (isOwner truthyFlags)
   \<and> mapSetparRoleToAnything truthyFlags = ascii ''default''
   \<and> mapSetparRoleToAnything (truthyFlags\<lparr>role := JStr (ascii ''superadmin'')\<rparr>) = ascii ''manager''"
proof -
  have a: "isSuperAdmin truthyFlags \<noteq> JBool True" "isOwner truthyFlags \<noteq> JBool True"
    by (simp_all add: truthyFlags_def)
  have b: "role truthyFlags \<noteq> JStr (ascii ''superadmin'')"
    by (simp add: truthyFlags_def ascii_def)
  have c: "truthy (isSuperAdmin truthyFlags)" "truthy (isOwner truthyFlags)"
    by (simp_all add: truthyFlags_def ascii_def)
  from flags_strict_equality [of truthyFlags] flags_strict_equality [of "truthyFlags\<lparr>role := JStr (ascii ''superadmin'')\<rparr>"]
    a b c show ?thesis by simp
qed

text \<open>An owner is a manager; a payload without flags or role is a default user.\<close>

theorem mapSetparRoleToAnything_two_roles_witness:
  "mapSetparRoleToAnything (bob\<lparr>isOwner := JBool True\<rparr>) = ascii ''manager''
   \<and> mapSetparRoleToAnything bob = ascii ''default''"
proof -
  have a: "isOwner (bob\<lparr>isOwner := JBool True\<rparr>) = JBool True" by simp
  have b: "\<not> (isSuperAdmin bob = JBool True \<or> isOwner bob = JBool True
             \<or> role bob = JStr (ascii ''superadmin''))" by (simp add: bob_def)
  from mapSetparRoleToAnything_two_roles [of "bob\<lparr>isOwner := JBool True\<rparr>"] a
       mapSetparRoleToAnything_two_roles [of bob] b
  show ?thesis by blast
qed

section \<open>Username derivation\<close>




text \<open>
  Claim C4, as the source has it. A derived username is at most 32 code units long and
  starts with \<open>setpar_\<close>, followed by at least one more character. After the prefix, a
  username derived by the primary rule holds characters of \<open>[a-z0-9]\<close> only; one
  derived by the legacy fallback holds characters of \<open>[a-z0-9._-]\<close> only, so it may
  hold a dot or a hyphen.
\<close>

theorem usernameFromPayload_shape:
  assumes "usernameFromPayload p = Some u"
  shows "length u \<le> 32 \<and> take 7 u = ascii ''setpar_'' \<and> 7 < length u
         \<and> list_all (\<lambda>c. legacyChar c \<and> c \<noteq> 0x40) (drop 7 u)
         \<and> (stableExternalId p \<noteq> [] \<longrightarrow> list_all alnumLower (drop 7 u))"
proof (cases "stableExternalId p = []")
  case True
  with assms have u: "u = ascii ''setpar_'' @ take 25 (legacyUsernameFromEmail (email p))"
    and ne: "legacyUsernameFromEmail (email p) \<noteq> []"
    by (auto simp: usernameFromPayload_alt split: if_splits)
  from ne have "take 25 (legacyUsernameFromEmail (email p)) \<noteq> []" by simp
  with u True show ?thesis
    by (simp add: length_prefix list_all_take legacy_chars)
next
  case False
  with assms have u: "u = ascii ''setpar_'' @ take 25 (stableExternalId p)"
    by (auto simp: usernameFromPayload_alt)
  have "list_all alnumLower (take 25 (stableExternalId p))"
    by (rule list_all_take) (rule stable_chars)
  moreover then have "list_all (\<lambda>c. legacyChar c \<and> c \<noteq> 0x40) (take 25 (stableExternalId p))"
    by (auto simp: list_all_iff dest: alnum_legacy)
  moreover from False have "take 25 (stableExternalId p) \<noteq> []" by simp
  ultimately show ?thesis using u
    by (simp add: length_prefix)
qed

theorem usernameFromPayload_shape_witness:
  "usernameFromPayload bob = Some (ascii ''setpar_u1'')
   \<and> length (ascii ''setpar_u1'') \<le> 32
   \<and> take 7 (ascii ''setpar_u1'') = ascii ''setpar_''
   \<and> list_all alnumLower (drop 7 (ascii ''setpar_u1''))"
proof -
  have h: "usernameFromPayload bob = Some (ascii ''setpar_u1'')" by code_simp
  have ne: "stableExternalId bob \<noteq> []" by code_simp
  from usernameFromPayload_shape [OF h] ne show ?thesis using h by simp
qed

text \<open>
  The claim as worded, with \<open>[a-z0-9_]\<close> as the only characters, fails on the
  specification's own example: the username of \<open>{email: "Bob.Smith@x.com"}\<close> holds a
  dot.
\<close>

theorem legacy_username_counterexample:
  "usernameFromPayload emailOnly = Some (ascii ''setpar_bob.smith'')
   \<and> \<not> list_all specUsernameChar (ascii ''setpar_bob.smith'')"
  by code_simp

section \<open>The multi-user bootstrap\<close>

text \<open>
  Claim C8, as the source has it. When no call throws, \<open>ensureMultiUserModeEnabled\<close>
  reads the flag once and then: succeeds without an enable call when the flag is set;
  otherwise, with the default switch truthy, makes an enable call and succeeds when it
  does; otherwise, or when that call failed, with the auto-enable switch truthy, makes an
  enable call and returns its success; and fails when it made no enable call or every
  enable call it made failed. That is two failed calls when both switches are truthy,
  and a single failed call when exactly one is.
\<close>

theorem ensureMultiUserModeEnabled_cases:
  assumes "isMultiUserMode d (world s) = (Inr enabled, wa)"
  shows "(enabled \<longrightarrow>
            ensureMultiUserModeEnabled d s =
              (Inr True, \<lparr>world = wa, trace = trace s @ [IsMultiUserMode]\<rparr>))
         \<and> (\<not> enabled \<and> isTruthyEnv (CHAT_SETPAR_DEFAULT_MULTI_USER d)
              \<and> updateSettings d wa = (Inr True, wb) \<longrightarrow>
            ensureMultiUserModeEnabled d s =
              (Inr True, \<lparr>world = wb, trace = trace s @ [IsMultiUserMode, UpdateSettings]\<rparr>))
         \<and> (\<not> enabled \<and> isTruthyEnv (CHAT_SETPAR_DEFAULT_MULTI_USER d)
              \<and> updateSettings d wa = (Inr False, wb)
              \<and> isTruthyEnv (CHAT_SETPAR_AUTO_ENABLE_MULTI_USER d)
              \<and> updateSettings d wb = (Inr okb, wc) \<longrightarrow>
            ensureMultiUserModeEnabled d s =
              (Inr okb, \<lparr>world = wc,
                         trace = trace s @ [IsMultiUserMode, UpdateSettings, UpdateSettings]\<rparr>))
         \<and> (\<not> enabled \<and> isTruthyEnv (CHAT_SETPAR_DEFAULT_MULTI_USER d)
              \<and> updateSettings d wa = (Inr False, wb)
              \<and> \<not> isTruthyEnv (CHAT_SETPAR_AUTO_ENABLE_MULTI_USER d) \<longrightarrow>
            ensureMultiUserModeEnabled d s =
              (Inr False, \<lparr>world = wb, trace = trace s @ [IsMultiUserMode, UpdateSettings]\<rparr>))
         \<and> (\<not> enabled \<and> \<not> isTruthyEnv (CHAT_SETPAR_DEFAULT_MULTI_USER d)
              \<and> isTruthyEnv (CHAT_SETPAR_AUTO_ENABLE_MULTI_USER d)
              \<and> updateSettings d wa = (Inr oka, wb) \<longrightarrow>
            ensureMultiUserModeEnabled d s =
              (Inr oka, \<lparr>world = wb, trace = trace s @ [IsMultiUserMode, UpdateSettings]\<rparr>))
         \<and> (\<not> enabled \<and> \<not> isTruthyEnv (CHAT_SETPAR_DEFAULT_MULTI_USER d)
              \<and> \<not> isTruthyEnv (CHAT_SETPAR_AUTO_ENABLE_MULTI_USER d) \<longrightarrow>
            ensureMultiUserModeEnabled d s =
              (Inr False, \<lparr>world = wa, trace = trace s @ [IsMultiUserMode]\<rparr>))"
  using assms
  by (simp add: ensureMultiUserModeEnabled_def enableMultiUserMode_def call_def)

text \<open>
  Both switches truthy: the first enable call succeeds; both enable calls fail; the flag
  is set already.
\<close>

theorem ensureMultiUserModeEnabled_cases_witness:
  "ensureMultiUserModeEnabled (memDeps bob (Some (ascii ''yes'')) (Some (ascii ''1'')))
       (memStart ((store [])\<lparr>multi_user_mode := False\<rparr>)) =
     (Inr True, \<lparr>world = store [], trace = [IsMultiUserMode, UpdateSettings]\<rparr>)
   \<and> ensureMultiUserModeEnabled (memDeps bob (Some (ascii ''yes'')) (Some (ascii ''1'')))
       (memStart singleTenant) =
     (Inr False, \<lparr>world = singleTenant,
                  trace = [IsMultiUserMode, UpdateSettings, UpdateSettings]\<rparr>)
   \<and> ensureMultiUserModeEnabled (memDeps bob (Some (ascii ''yes'')) (Some (ascii ''1'')))
       (memStart (store [])) =
     (Inr True, \<lparr>world = store [], trace = [IsMultiUserMode]\<rparr>)"
proof -
  let ?d = "memDeps bob (Some (ascii ''yes'')) (Some (ascii ''1''))"
  let ?w = "(store [])\<lparr>multi_user_mode := False\<rparr>"
  have h: "isMultiUserMode ?d (world (memStart ?w)) = (Inr False, ?w)"
    and u: "updateSettings ?d ?w = (Inr True, store [])"
    and y: "isTruthyEnv (CHAT_SETPAR_DEFAULT_MULTI_USER ?d)"
           "isTruthyEnv (CHAT_SETPAR_AUTO_ENABLE_MULTI_USER ?d)"
    and h': "isMultiUserMode ?d (world (memStart singleTenant)) = (Inr False, singleTenant)"
    and u': "updateSettings ?d singleTenant = (Inr False, singleTenant)"
    and h'': "isMultiUserMode ?d (world (memStart (store []))) = (Inr True, store [])"
    by code_simp+
  from ensureMultiUserModeEnabled_cases [OF h, where wb = "store []"] u y
  have a: "ensureMultiUserModeEnabled ?d (memStart ?w) =
     (Inr True, \<lparr>world = store [], trace = [IsMultiUserMode, UpdateSettings]\<rparr>)"
    by (simp add: memStart_def)
  from ensureMultiUserModeEnabled_cases
         [OF h', where wb = singleTenant and wc = singleTenant and okb = False] u' y
  have b: "ensureMultiUserModeEnabled ?d (memStart singleTenant) =
     (Inr False, \<lparr>world = singleTenant,
                  trace = [IsMultiUserMode, UpdateSettings, UpdateSettings]\<rparr>)"
    by (simp add: memStart_def)
  from ensureMultiUserModeEnabled_cases [OF h'']
  have c: "ensureMultiUserModeEnabled ?d (memStart (store [])) =
     (Inr True, \<lparr>world = store [], trace = [IsMultiUserMode]\<rparr>)"
    by (simp add: memStart_def)
  from a b c show ?thesis by blast
qed

text \<open>
  The claim as worded lets the function fail only when both switches are falsy or when
  both attempts fail. Here the auto-enable switch is truthy, one attempt is made, and it
  fails.
\<close>

theorem single_failed_attempt_counterexample:
  "fst (ensureMultiUserModeEnabled (memDeps bob None (Some (ascii ''true''))) (memStart singleTenant))
     = Inr False
   \<and> isTruthyEnv (CHAT_SETPAR_AUTO_ENABLE_MULTI_USER (memDeps bob None (Some (ascii ''true''))))
   \<and> trace (snd (ensureMultiUserModeEnabled (memDeps bob None (Some (ascii ''true''))) (memStart singleTenant)))
     = [IsMultiUserMode, UpdateSettings]"
  by code_simp

text \<open>
  Claim C7. When the token verifies, the payload has a \<open>userId\<close> and an \<open>email\<close>,
  the multi-user flag reads as disabled and both switches are falsy, the middleware answers
  403, and the read of the flag is its only call to a store: no user is looked up, created
  or updated and the settings are not written.
\<close>

theorem multi_tenancy_disabled_403:
  assumes "truthy (sso_token req)" and "CHAT_SETPAR_JWT_SECRET d = Some secret" and "secret \<noteq> []"
    and "jwtVerify d (sso_token req) secret = Inr p" and "truthy (userId p)" and "truthy (email p)"
    and "isMultiUserMode d (world s) = (Inr False, w1)"
    and "\<not> isTruthyEnv (CHAT_SETPAR_DEFAULT_MULTI_USER d)"
    and "\<not> isTruthyEnv (CHAT_SETPAR_AUTO_ENABLE_MULTI_USER d)"
  shows "chatSetparSSO d req s =
           (Json 403 (ascii ''Multi-user mode must be enabled for SSO.''),
            \<lparr>world = w1, trace = trace s @ [IsMultiUserMode]\<rparr>)"
proof -
  have "ensureMultiUserModeEnabled d s = (Inr False, \<lparr>world = w1, trace = trace s @ [IsMultiUserMode]\<rparr>)"
    using assms(7-9) by (simp add: ensureMultiUserModeEnabled_def call_eq)
  then have "tryBlock d req secret s =
      (Inr (Json 403 (ascii ''Multi-user mode must be enabled for SSO.'')),
       \<lparr>world = w1, trace = trace s @ [IsMultiUserMode]\<rparr>)"
    using assms(4-6) by (simp add: tryBlock_def)
  then show ?thesis using assms(1-3) by (simp add: chatSetparSSO_def tryCatch_def)
qed

theorem multi_tenancy_disabled_403_witness:
  "chatSetparSSO (memDeps bob None (Some (ascii '' Off ''))) ssoRequest (memStart singleTenant) =
     (Json 403 (ascii ''Multi-user mode must be enabled for SSO.''),
      \<lparr>world = singleTenant, trace = [IsMultiUserMode]\<rparr>)"
proof -
  let ?d = "memDeps bob None (Some (ascii '' Off ''))"
  have h: "truthy (sso_token ssoRequest)"
    "CHAT_SETPAR_JWT_SECRET ?d = Some (ascii ''secret'')"
    "ascii ''secret'' \<noteq> []"
    "jwtVerify ?d (sso_token ssoRequest) (ascii ''secret'') = Inr bob"
    "truthy (userId bob)" "truthy (email bob)"
    "isMultiUserMode ?d (world (memStart singleTenant)) = (Inr False, singleTenant)"
    "\<not> isTruthyEnv (CHAT_SETPAR_DEFAULT_MULTI_USER ?d)"
    "\<not> isTruthyEnv (CHAT_SETPAR_AUTO_ENABLE_MULTI_USER ?d)"
    by code_simp+
  from multi_tenancy_disabled_403 [OF h] show ?thesis by (simp add: memStart_def)
qed

section \<open>Incomplete payloads\<close>

text \<open>
  Claim C1, as the source has it. A verified payload that lacks the \<open>userId\<close> or lacks
  the \<open>email\<close> is answered with 401 \<open>Invalid SSO token payload.\<close> before any store
  is called. \<open>usernameFromPayload\<close> on its own, given a payload without \<open>userId\<close>,
  derives the username from the email: \<open>setpar_\<close> and the legacy username, cut to 32.
\<close>

theorem incomplete_payload_401:
  assumes "truthy (sso_token req)" and "CHAT_SETPAR_JWT_SECRET d = Some secret" and "secret \<noteq> []"
    and "jwtVerify d (sso_token req) secret = Inr p"
  shows "(\<not> truthy (userId p) \<or> \<not> truthy (email p) \<longrightarrow>
            chatSetparSSO d req s = (Json 401 (ascii ''Invalid SSO token payload.''), s))
         \<and> (\<not> truthy (userId p) \<longrightarrow>
              usernameFromPayload p =
                (if legacyUsernameFromEmail (email p) = [] then None
                 else Some (take 32 (ascii ''setpar_'' @ legacyUsernameFromEmail (email p)))))"
proof -
  have "tryBlock d req secret s = (Inr (Json 401 (ascii ''Invalid SSO token payload.'')), s)"
    if "\<not> truthy (userId p) \<or> \<not> truthy (email p)"
    using that assms(4) by (simp add: tryBlock_def)
  then have a: "chatSetparSSO d req s = (Json 401 (ascii ''Invalid SSO token payload.''), s)"
    if "\<not> truthy (userId p) \<or> \<not> truthy (email p)"
    using that assms(1-3) by (simp add: chatSetparSSO_def tryCatch_def)
  have "stableExternalId p = []" if "\<not> truthy (userId p)"
    using that by (simp add: stableExternalId_def jsOr_def toLowerCase_def)
  then have b: "usernameFromPayload p =
                (if legacyUsernameFromEmail (email p) = [] then None
                 else Some (take 32 (ascii ''setpar_'' @ legacyUsernameFromEmail (email p))))"
    if "\<not> truthy (userId p)"
    using that by (simp add: usernameFromPayload_def Let_def)
  from a b show ?thesis by blast
qed

theorem incomplete_payload_401_witness:
  "chatSetparSSO (memDeps emailOnly None None) ssoRequest (memStart (store [legacyBob])) =
     (Json 401 (ascii ''Invalid SSO token payload.''), memStart (store [legacyBob]))
   \<and> usernameFromPayload emailOnly = Some (ascii ''setpar_bob.smith'')"
proof -
  have a: "\<not> truthy (userId emailOnly)" by (simp add: emailOnly_def)
  have l: "legacyUsernameFromEmail (email emailOnly) = ascii ''bob.smith''" by code_simp
  have t: "take 32 (ascii ''setpar_'' @ ascii ''bob.smith'') = ascii ''setpar_bob.smith''"
    by (simp add: ascii_def)
  have n: "ascii ''bob.smith'' \<noteq> []" by (simp add: ascii_def)
  have h: "truthy (sso_token ssoRequest)" "CHAT_SETPAR_JWT_SECRET (memDeps emailOnly None None) = Some (ascii ''secret'')"
    "ascii ''secret'' \<noteq> []" "jwtVerify (memDeps emailOnly None None) (sso_token ssoRequest) (ascii ''secret'') = Inr emailOnly"
    by code_simp+
  from incomplete_payload_401 [OF h, of "memStart (store [legacyBob])"] a l t n
  show ?thesis by simp
qed

text \<open>
  The claim as worded has the middleware accept \<open>{email: "Bob.Smith@x.com"}\<close>; it
  rejects it.
\<close>

theorem email_only_payload_counterexample:
  "chatSetparSSO (memDeps emailOnly None None) ssoRequest (memStart (store [])) =
     (Json 401 (ascii ''Invalid SSO token payload.''), memStart (store []))"
  by code_simp

section \<open>Resolving the user\<close>

text \<open>
  Claim C3, as the source has it. When the lookup under the derived username finds no
  user, and the legacy username is not empty and differs from the derived one, the next
  call to the store is a lookup under the legacy username, which is
  \<open>legacyUsernameFromEmail(email)\<close>: the local part in lower case, filtered and cut to
  32, without the prefix \<open>setpar_\<close>. Rule 2 of the specification is that name with
  \<open>setpar_\<close> in front, cut to 32.
\<close>

theorem migration_lookup_name:
  assumes "userGet d username w0 = (Inr None, w1)"
    and "legacyUsernameFromEmail emailv \<noteq> []"
    and "legacyUsernameFromEmail emailv \<noteq> username"
  shows "(\<exists>rest. trace (snd (resolveUser d emailv username \<lparr>world = w0, trace = t\<rparr>)) =
            t @ [UserGet username, UserGet (legacyUsernameFromEmail emailv)] @ rest)
         \<and> (emailv \<noteq> JUndefined \<longrightarrow>
              specLegacyFallback emailv =
                Some (take 32 (ascii ''setpar_'' @ legacyUsernameFromEmail emailv)))"
proof -
  let ?l = "legacyUsernameFromEmail emailv"
  obtain x w2 where g2: "userGet d ?l w1 = (x, w2)" by (cases "userGet d ?l w1")
  obtain y w3 where g3: "userGet d username w2 = (y, w3)" by (cases "userGet d username w2")
  have "\<exists>rest. trace (snd (resolveUser d emailv username \<lparr>world = w0, trace = t\<rparr>)) =
            t @ [UserGet username, UserGet ?l] @ rest"
  proof (cases x)
    case (Inl e)
    then show ?thesis using assms g2 by (simp add: resolveUser_def call_def)
  next
    case (Inr lo)
    show ?thesis
    proof (cases lo)
      case None
      then show ?thesis using assms g2 Inr by (simp add: resolveUser_def call_def)
    next
      case (Some lu)
      obtain z w4 where g4: "userUpdate d (user_id lu) (SetUsername username) w3 = (z, w4)"
        by (cases "userUpdate d (user_id lu) (SetUsername username) w3")
      show ?thesis using assms g2 g3 g4 Inr Some
        by (cases y; cases z) (auto simp: resolveUser_def call_def Let_def split: option.splits)
    qed
  qed
  moreover have "specLegacyFallback emailv =
                   Some (take 32 (ascii ''setpar_'' @ legacyUsernameFromEmail emailv))"
    if "emailv \<noteq> JUndefined"
    using that assms(2) by (simp add: specLegacyFallback_def legacyUsernameFromEmail_def)
  ultimately show ?thesis by blast
qed

theorem migration_lookup_name_witness:
  "(\<exists>rest. trace (snd (resolveUser (memDeps bob None None) (email bob) (ascii ''setpar_u1'')
                        \<lparr>world = store [legacyBob], trace = [IsMultiUserMode]\<rparr>)) =
            [IsMultiUserMode, UserGet (ascii ''setpar_u1''), UserGet (ascii ''bob.smith'')] @ rest)
   \<and> specLegacyFallback (email bob) = Some (ascii ''setpar_bob.smith'')"
proof -
  let ?d = "memDeps bob None None"
  have h: "userGet ?d (ascii ''setpar_u1'') (store [legacyBob]) = (Inr None, store [legacyBob])"
    "legacyUsernameFromEmail (email bob) \<noteq> []"
    "legacyUsernameFromEmail (email bob) \<noteq> ascii ''setpar_u1''"
    by code_simp+
  have l: "legacyUsernameFromEmail (email bob) = ascii ''bob.smith''" by code_simp
  have e: "email bob \<noteq> JUndefined" by code_simp
  have t: "take 32 (ascii ''setpar_'' @ ascii ''bob.smith'') = ascii ''setpar_bob.smith''"
    by (simp add: ascii_def)
  from migration_lookup_name [OF h, of "[IsMultiUserMode]"] e show ?thesis
    unfolding l t by simp
qed

text \<open>
  The claim as worded has the legacy user looked up under the name of rule 2. For
  \<open>Bob.Smith@x.com\<close> that is \<open>setpar_bob.smith\<close>; the third call of the run is a
  lookup of \<open>bob.smith\<close>, and \<open>setpar_bob.smith\<close> is never looked up.
\<close>

theorem migration_lookup_counterexample:
  "trace (snd (chatSetparSSO (memDeps bob None None) ssoRequest (memStart (store [legacyBob])))) ! 2
     = UserGet (ascii ''bob.smith'')
   \<and> specLegacyFallback (email bob) = Some (ascii ''setpar_bob.smith'')
   \<and> UserGet (ascii ''setpar_bob.smith'')
       \<notin> set (trace (snd (chatSetparSSO (memDeps bob None None) ssoRequest
                               (memStart (store [legacyBob])))))"
  by code_simp

text \<open>
  Claim C6, as the source has it. When the first lookup finds a user under the derived
  username, that user is the result and the legacy user is not looked at. When it finds
  nobody and the legacy lookup finds the legacy user, the second lookup under the derived
  username decides: when it finds the name taken, the result is the legacy user as it was
  read, without a rename; when it finds the name free and the rename gives a user, the
  result is that renamed user. Conversely, when the first lookup found nobody and the
  resolver ends with a user, it ended in one of these two ways, so that the legacy user is
  the result without a rename only when the second lookup found the name taken.
  Provisioning a user that was found never creates one: its only possible call is the
  update of the role.
\<close>

theorem resolveUser_primary_taken:
  "(userGet d username wa = (Inr (Some holder), wb) \<longrightarrow>
      resolveUser d emailv username \<lparr>world = wa, trace = t\<rparr> =
        (Inr (Some holder), \<lparr>world = wb, trace = t @ [UserGet username]\<rparr>))
   \<and> (userGet d username wa = (Inr None, wb)
        \<and> legacyUsernameFromEmail emailv = legacy \<and> legacy \<noteq> [] \<and> legacy \<noteq> username
        \<and> userGet d legacy wb = (Inr (Some lu), wc)
        \<and> userGet d username wc = (Inr (Some other), wd) \<longrightarrow>
      resolveUser d emailv username \<lparr>world = wa, trace = t\<rparr> =
        (Inr (Some lu),
         \<lparr>world = wd, trace = t @ [UserGet username, UserGet legacy, UserGet username]\<rparr>))
   \<and> (userGet d username wa = (Inr None, wb)
        \<and> legacyUsernameFromEmail emailv = legacy \<and> legacy \<noteq> [] \<and> legacy \<noteq> username
        \<and> userGet d legacy wb = (Inr (Some lu), wc)
        \<and> userGet d username wc = (Inr None, wd)
        \<and> userUpdate d (user_id lu) (SetUsername username) wd = (Inr (Some ru), we) \<longrightarrow>
      resolveUser d emailv username \<lparr>world = wa, trace = t\<rparr> =
        (Inr (Some (filterFields d ru)),
         \<lparr>world = we,
          trace = t @ [UserGet username, UserGet legacy, UserGet username,
                       UserUpdate (user_id lu) (SetUsername username)]\<rparr>))
   \<and> (userGet d username wa = (Inr None, wb)
        \<and> legacyUsernameFromEmail emailv = legacy
        \<and> resolveUser d emailv username \<lparr>world = wa, trace = t\<rparr> = (Inr (Some u), s') \<longrightarrow>
      legacy \<noteq> [] \<and> legacy \<noteq> username
      \<and> (\<exists>lu' wc'. userGet d legacy wb = (Inr (Some lu'), wc')
            \<and> ((\<exists>other' wd'. userGet d username wc' = (Inr (Some other'), wd')
                    \<and> u = lu'
                    \<and> s' = \<lparr>world = wd',
                            trace = t @ [UserGet username, UserGet legacy, UserGet username]\<rparr>)
                \<or> (\<exists>wd' ru' we'. userGet d username wc' = (Inr None, wd')
                    \<and> userUpdate d (user_id lu') (SetUsername username) wd' = (Inr (Some ru'), we')
                    \<and> u = filterFields d ru'
                    \<and> s' = \<lparr>world = we',
                            trace = t @ [UserGet username, UserGet legacy, UserGet username,
                                         UserUpdate (user_id lu') (SetUsername username)]\<rparr>))))
   \<and> (\<forall>r s. trace (snd (provisionUser d username r (Some lu) s)) =
               trace s @ (if user_role lu \<noteq> r
                          then [UserUpdate (user_id lu) (SetRole r)] else []))"
proof -
  have a: "resolveUser d emailv username \<lparr>world = wa, trace = t\<rparr> =
              (Inr (Some holder), \<lparr>world = wb, trace = t @ [UserGet username]\<rparr>)"
    if "userGet d username wa = (Inr (Some holder), wb)"
    using that by (simp add: resolveUser_def call_def)
  have b: "resolveUser d emailv username \<lparr>world = wa, trace = t\<rparr> =
           (Inr (Some lu),
            \<lparr>world = wd, trace = t @ [UserGet username, UserGet legacy, UserGet username]\<rparr>)"
    if "userGet d username wa = (Inr None, wb)" and "userGet d legacy wb = (Inr (Some lu), wc)"
      and "userGet d username wc = (Inr (Some other), wd)"
      and "legacyUsernameFromEmail emailv = legacy" and "legacy \<noteq> []" and "legacy \<noteq> username"
    using that by (simp add: resolveUser_def call_def)
  have c: "resolveUser d emailv username \<lparr>world = wa, trace = t\<rparr> =
        (Inr (Some (filterFields d ru)),
         \<lparr>world = we,
          trace = t @ [UserGet username, UserGet legacy, UserGet username,
                       UserUpdate (user_id lu) (SetUsername username)]\<rparr>)"
    if "userGet d username wa = (Inr None, wb)" and "userGet d legacy wb = (Inr (Some lu), wc)"
      and "userGet d username wc = (Inr None, wd)"
      and "userUpdate d (user_id lu) (SetUsername username) wd = (Inr (Some ru), we)"
      and "legacyUsernameFromEmail emailv = legacy" and "legacy \<noteq> []" and "legacy \<noteq> username"
    using that by (simp add: resolveUser_def call_def)
  have i: "legacy \<noteq> [] \<and> legacy \<noteq> username
      \<and> (\<exists>lu' wc'. userGet d legacy wb = (Inr (Some lu'), wc')
            \<and> ((\<exists>other' wd'. userGet d username wc' = (Inr (Some other'), wd')
                    \<and> u = lu'
                    \<and> s' = \<lparr>world = wd',
                            trace = t @ [UserGet username, UserGet legacy, UserGet username]\<rparr>)
                \<or> (\<exists>wd' ru' we'. userGet d username wc' = (Inr None, wd')
                    \<and> userUpdate d (user_id lu') (SetUsername username) wd' = (Inr (Some ru'), we')
                    \<and> u = filterFields d ru'
                    \<and> s' = \<lparr>world = we',
                            trace = t @ [UserGet username, UserGet legacy, UserGet username,
                                         UserUpdate (user_id lu') (SetUsername username)]\<rparr>)))"
    if g1: "userGet d username wa = (Inr None, wb)"
      and l: "legacyUsernameFromEmail emailv = legacy"
      and res: "resolveUser d emailv username \<lparr>world = wa, trace = t\<rparr> = (Inr (Some u), s')"
  proof -
    have ok: "legacy \<noteq> [] \<and> legacy \<noteq> username"
      using g1 l res by (auto simp: resolveUser_def call_def Let_def split: if_splits)
    obtain x wc' where g2: "userGet d legacy wb = (x, wc')" by (cases "userGet d legacy wb")
    obtain lu' where x: "x = Inr (Some lu')"
      using g1 l res ok g2
      by (cases x) (auto simp: resolveUser_def call_def Let_def split: option.splits)
    obtain y wd' where g3: "userGet d username wc' = (y, wd')" by (cases "userGet d username wc'")
    show ?thesis
    proof (cases y)
      case (Inl e)
      with g1 l res ok g2 x g3 show ?thesis
        by (simp add: resolveUser_def call_def Let_def)
    next
      case (Inr taken)
      show ?thesis
      proof (cases taken)
        case (Some other')
        with g1 l res ok g2 x g3 Inr show ?thesis
          by (auto simp: resolveUser_def call_def Let_def)
      next
        case None
        obtain z we' where g4: "userUpdate d (user_id lu') (SetUsername username) wd' = (z, we')"
          by (cases "userUpdate d (user_id lu') (SetUsername username) wd'")
        from g1 l res ok g2 x g3 Inr None g4 show ?thesis
          by (cases z) (auto simp: resolveUser_def call_def Let_def split: option.splits)
      qed
    qed
  qed
  have p: "trace (snd (provisionUser d username r (Some lu) s)) =
             trace s @ (if user_role lu \<noteq> r
                        then [UserUpdate (user_id lu) (SetRole r)] else [])" for r s
  proof (cases "user_role lu = r")
    case True
    then show ?thesis by (simp add: provisionUser_def)
  next
    case False
    obtain x w' where u: "userUpdate d (user_id lu) (SetRole r) (world s) = (x, w')"
      by (cases "userUpdate d (user_id lu) (SetRole r) (world s)")
    show ?thesis using False u
      by (cases x) (auto simp: provisionUser_def call_def split: option.splits)
  qed
  from a b c i p show ?thesis by blast
qed

text \<open>
  Another request inserts \<open>setpar_u1\<close> between the second and the third lookup; the
  same store once \<open>setpar_u1\<close> is in it; and a store in which the rename goes through.
\<close>

theorem resolveUser_primary_taken_witness:
  "resolveUser (memDeps bob None None) (email bob) (ascii ''setpar_u1'') (memStart racing) =
     (Inr (Some legacyBob),
      \<lparr>world = settled,
       trace = [UserGet (ascii ''setpar_u1''), UserGet (ascii ''bob.smith''),
                UserGet (ascii ''setpar_u1'')]\<rparr>)
   \<and> resolveUser (memDeps bob None None) (email bob) (ascii ''setpar_u1'') (memStart settled) =
     (Inr (Some newcomer), \<lparr>world = settled, trace = [UserGet (ascii ''setpar_u1'')]\<rparr>)
   \<and> resolveUser (memDeps bob None None) (email bob) (ascii ''setpar_u1'')
         (memStart (store [legacyBob])) =
     (Inr (Some renamedBob),
      \<lparr>world = store [renamedBob],
       trace = [UserGet (ascii ''setpar_u1''), UserGet (ascii ''bob.smith''),
                UserGet (ascii ''setpar_u1''),
                UserUpdate 7 (SetUsername (ascii ''setpar_u1''))]\<rparr>)
   \<and> trace (snd (provisionUser (memDeps bob None None) (ascii ''setpar_u1'') (ascii ''default'')
                   (Some legacyBob) \<lparr>world = settled, trace = []\<rparr>)) = []"
proof -
  let ?d = "memDeps bob None None"
  let ?un = "ascii ''setpar_u1''"
  have h: "legacyUsernameFromEmail (email bob) = ascii ''bob.smith''"
    "ascii ''bob.smith'' \<noteq> []" "ascii ''bob.smith'' \<noteq> ?un"
    by code_simp+
  have g: "userGet ?d ?un racing = (Inr None, (store [legacyBob])\<lparr>arrivals := [[newcomer]]\<rparr>)"
    "userGet ?d (ascii ''bob.smith'') ((store [legacyBob])\<lparr>arrivals := [[newcomer]]\<rparr>)
       = (Inr (Some legacyBob), settled)"
    "userGet ?d ?un settled = (Inr (Some newcomer), settled)"
    by code_simp+
  have k: "userGet ?d ?un (store [legacyBob]) = (Inr None, store [legacyBob])"
    "userGet ?d (ascii ''bob.smith'') (store [legacyBob]) = (Inr (Some legacyBob), store [legacyBob])"
    "userUpdate ?d (user_id legacyBob) (SetUsername ?un) (store [legacyBob])
       = (Inr (Some renamedBob), store [renamedBob])"
    "filterFields ?d renamedBob = renamedBob" "user_id legacyBob = 7"
    by code_simp+
  have r: "user_role legacyBob = ascii ''default''" by code_simp
  from resolveUser_primary_taken
         [where d = ?d and wa = racing and t = "[]" and lu = legacyBob
            and username = ?un and emailv = "email bob" and legacy = "ascii ''bob.smith''"
            and wb = "(store [legacyBob])\<lparr>arrivals := [[newcomer]]\<rparr>"
            and wc = settled and other = newcomer and wd = settled,
          THEN conjunct2, THEN conjunct1] h g
  have a: "resolveUser ?d (email bob) ?un (memStart racing) =
     (Inr (Some legacyBob),
      \<lparr>world = settled, trace = [UserGet ?un, UserGet (ascii ''bob.smith''), UserGet ?un]\<rparr>)"
    by (simp add: memStart_def)
  from resolveUser_primary_taken
         [where d = ?d and lu = legacyBob and username = ?un,
          THEN conjunct2, THEN conjunct2, THEN conjunct2, THEN conjunct2] r
  have p: "trace (snd (provisionUser ?d ?un (ascii ''default'')
                   (Some legacyBob) \<lparr>world = settled, trace = []\<rparr>)) = []"
    by simp
  from resolveUser_primary_taken
         [where d = ?d and wa = settled and t = "[]" and username = ?un and emailv = "email bob"
            and holder = newcomer and wb = settled, THEN conjunct1] g
  have b: "resolveUser ?d (email bob) ?un (memStart settled) =
     (Inr (Some newcomer), \<lparr>world = settled, trace = [UserGet ?un]\<rparr>)"
    by (simp add: memStart_def)
  from resolveUser_primary_taken
         [where d = ?d and wa = "store [legacyBob]" and t = "[]" and lu = legacyBob
            and username = ?un and emailv = "email bob" and legacy = "ascii ''bob.smith''"
            and wb = "store [legacyBob]" and wc = "store [legacyBob]" and wd = "store [legacyBob]"
            and ru = renamedBob and we = "store [renamedBob]",
          THEN conjunct2, THEN conjunct2, THEN conjunct1] h k
  have c: "resolveUser ?d (email bob) ?un (memStart (store [legacyBob])) =
     (Inr (Some renamedBob),
      \<lparr>world = store [renamedBob],
       trace = [UserGet ?un, UserGet (ascii ''bob.smith''), UserGet ?un,
                UserUpdate 7 (SetUsername ?un)]\<rparr>)"
    by (simp add: memStart_def)
  from a b c p show ?thesis by blast
qed

text \<open>
  The claim as worded: a legacy user exists and the derived username is held by another
  user. The resolver returns that other user, not the legacy one.
\<close>

theorem primary_holder_counterexample:
  "resolveUser (memDeps bob None None) (email bob) (ascii ''setpar_u1'') (memStart settled) =
     (Inr (Some newcomer), \<lparr>world = settled, trace = [UserGet (ascii ''setpar_u1'')]\<rparr>)
   \<and> find (\<lambda>u. user_username u = legacyUsernameFromEmail (email bob)) (users settled) = Some legacyBob
   \<and> user_id newcomer \<noteq> user_id legacyBob"
  by code_simp

text \<open>
  Claim C2 does not hold of the source. When the legacy user was found, nobody holds the
  derived username and the rename returns no user, lines 158 to 160 log the failure and
  go on to line 168 with no user, where every other failed call to a store (lines 180,
  194 and 208) ends the request with 500. In the run below the rename fails, a second
  user is created beside the legacy one, and the request is redirected.
\<close>

theorem failed_rename_creates_second_user:
  "chatSetparSSO (memDeps bob None None) ssoRequest
       (memStart ((store [legacyBob])\<lparr>renames_allowed := False\<rparr>)) =
     (Redirect 302 (ascii ''/sso/simple?token=t0k3n&redirectTo=%2Fworkspace''),
      \<lparr>world = (store [legacyBob,
                  \<lparr>user_id = 8, user_username = ascii ''setpar_u1'', user_role = ascii ''default''\<rparr>])
                \<lparr>renames_allowed := False\<rparr>,
       trace = [IsMultiUserMode, UserGet (ascii ''setpar_u1''), UserGet (ascii ''bob.smith''),
                UserGet (ascii ''setpar_u1''), UserUpdate 7 (SetUsername (ascii ''setpar_u1'')),
                RandomBytes 32,
                UserCreate (ascii ''setpar_u1'') (replicate 64 0x61) (ascii ''default''),
                Issue 8]\<rparr>)"
  by code_simp

text \<open>
  The same for every store: after the failed rename a password is drawn and
  \<open>User.create\<close> is called with the derived username and the mapped role; the answer
  is 500 \<open>Failed to create SSO user.\<close> when the creation reports an error, and
  otherwise whatever the session bridge gives for the created user.
\<close>

theorem failed_rename_then_create:
  assumes "truthy (sso_token req)" and "CHAT_SETPAR_JWT_SECRET d = Some secret" and "secret \<noteq> []"
    and "jwtVerify d (sso_token req) secret = Inr p" and "truthy (userId p)" and "truthy (email p)"
    and "ensureMultiUserModeEnabled d s0 = (Inr True, s1)"
    and "usernameFromPayload p = Some username"
    and "legacyUsernameFromEmail (email p) = legacy" and "legacy \<noteq> []" and "legacy \<noteq> username"
    and "userGet d username (world s1) = (Inr None, w2)"
    and "userGet d legacy w2 = (Inr (Some lu), w3)"
    and "userGet d username w3 = (Inr None, w4)"
    and "userUpdate d (user_id lu) (SetUsername username) w4 = (Inr None, w5)"
    and "randomBytesHex d 32 w5 = (Inr pw, w6)"
    and "userCreate d username pw (mapSetparRoleToAnything p) w6 = (Inr (newUser, err), w7)"
  shows "chatSetparSSO d req s0 =
           (let s7 = \<lparr>world = w7,
                      trace = trace s1 @
                        [UserGet username, UserGet legacy, UserGet username,
                         UserUpdate (user_id lu) (SetUsername username),
                         RandomBytes 32,
                         UserCreate username pw (mapSetparRoleToAnything p)]\<rparr>
            in if truthy err then (Json 500 (ascii ''Failed to create SSO user.''), s7)
               else tryCatch (bridgeSession d req newUser s7))
         \<and> trace (snd (chatSetparSSO d req s0)) =
             trace s1 @
               [UserGet username, UserGet legacy, UserGet username,
                UserUpdate (user_id lu) (SetUsername username),
                RandomBytes 32,
                UserCreate username pw (mapSetparRoleToAnything p)]
               @ (if truthy err then []
                  else case newUser of None \<Rightarrow> [] | Some u \<Rightarrow> [Issue (user_id u)])"
proof -
  let ?role = "mapSetparRoleToAnything p"
  let ?s5 = "\<lparr>world = w5, trace = trace s1 @
                        [UserGet username, UserGet legacy, UserGet username,
                         UserUpdate (user_id lu) (SetUsername username)]\<rparr>"
  let ?s7 = "\<lparr>world = w7, trace = trace s1 @
                        [UserGet username, UserGet legacy, UserGet username,
                         UserUpdate (user_id lu) (SetUsername username),
                         RandomBytes 32, UserCreate username pw ?role]\<rparr>"
  have ne: "username \<noteq> []" using assms(8)
    by (auto simp: usernameFromPayload_alt ascii_def split: if_splits)
  have r: "resolveUser d (email p) username s1 = (Inr None, ?s5)"
    using assms(9-15) by (simp add: resolveUser_def call_def)
  have pr: "provisionUser d username ?role None ?s5 =
              (if truthy err then (Inr (Inl (Json 500 (ascii ''Failed to create SSO user.''))), ?s7)
               else (Inr (Inr newUser), ?s7))"
    using assms(16,17) by (simp add: provisionUser_def call_def)
  have "tryBlock d req secret s0 =
          (if truthy err then (Inr (Json 500 (ascii ''Failed to create SSO user.'')), ?s7)
           else bridgeSession d req newUser ?s7)"
    using assms(4-8) ne r pr by (simp add: tryBlock_def Let_def)
  then have a: "chatSetparSSO d req s0 =
           (if truthy err then (Json 500 (ascii ''Failed to create SSO user.''), ?s7)
            else tryCatch (bridgeSession d req newUser ?s7))"
    using assms(1-3) by (simp add: chatSetparSSO_def tryCatch_def)
  have b: "trace (snd (chatSetparSSO d req s0)) =
             trace ?s7 @ (if truthy err then []
                  else case newUser of None \<Rightarrow> [] | Some u \<Rightarrow> [Issue (user_id u)])"
    unfolding a by (simp add: tryCatch_snd bridgeSession_trace)
  from a b show ?thesis by (simp add: Let_def)
qed

theorem failed_rename_then_create_witness:
  "chatSetparSSO (memDeps alice None None) ssoRequest (memStart readOnlyNames) =
     (Redirect 302 (ascii ''/sso/simple?token=t0k3n&redirectTo=%2Fworkspace''),
      \<lparr>world = readOnlyNames\<lparr>users := [legacyAlice, freshAlice]\<rparr>,
       trace = [IsMultiUserMode, UserGet (ascii ''setpar_a42''), UserGet (ascii ''alice''),
                UserGet (ascii ''setpar_a42''), UserUpdate 3 (SetUsername (ascii ''setpar_a42'')),
                RandomBytes 32,
                UserCreate (ascii ''setpar_a42'') (replicate 64 0x61) (ascii ''manager''),
                Issue 4]\<rparr>)"
proof -
  let ?d = "memDeps alice None None"
  let ?w = readOnlyNames
  let ?w7 = "readOnlyNames\<lparr>users := [legacyAlice, freshAlice]\<rparr>"
  let ?s1 = "\<lparr>world = ?w, trace = [IsMultiUserMode]\<rparr>"
  let ?un = "ascii ''setpar_a42''"
  let ?pw = "replicate 64 (0x61 :: unit16)"
  have h: "truthy (sso_token ssoRequest)"
    "CHAT_SETPAR_JWT_SECRET ?d = Some (ascii ''secret'')"
    "ascii ''secret'' \<noteq> []"
    "jwtVerify ?d (sso_token ssoRequest) (ascii ''secret'') = Inr alice"
    "truthy (userId alice)" "truthy (email alice)"
    "ensureMultiUserModeEnabled ?d (memStart ?w) = (Inr True, ?s1)"
    "usernameFromPayload alice = Some ?un"
    "legacyUsernameFromEmail (email alice) = ascii ''alice''"
    "ascii ''alice'' \<noteq> []" "ascii ''alice'' \<noteq> ?un"
    "userGet ?d ?un (world ?s1) = (Inr None, ?w)"
    "userGet ?d (ascii ''alice'') ?w = (Inr (Some legacyAlice), ?w)"
    "userGet ?d ?un ?w = (Inr None, ?w)"
    "userUpdate ?d (user_id legacyAlice) (SetUsername ?un) ?w = (Inr None, ?w)"
    "randomBytesHex ?d 32 ?w = (Inr ?pw, ?w)"
    "userCreate ?d ?un ?pw (mapSetparRoleToAnything alice) ?w = (Inr (Some freshAlice, JNull), ?w7)"
    by code_simp+
  have r: "mapSetparRoleToAnything alice = ascii ''manager''" "user_id legacyAlice = 3"
    by code_simp+
  have b: "tryCatch (bridgeSession ?d ssoRequest (Some freshAlice)
             \<lparr>world = ?w7,
              trace = [IsMultiUserMode, UserGet ?un, UserGet (ascii ''alice''), UserGet ?un,
                       UserUpdate 3 (SetUsername ?un), RandomBytes 32,
                       UserCreate ?un ?pw (ascii ''manager'')]\<rparr>) =
     (Redirect 302 (ascii ''/sso/simple?token=t0k3n&redirectTo=%2Fworkspace''),
      \<lparr>world = ?w7,
       trace = [IsMultiUserMode, UserGet ?un, UserGet (ascii ''alice''), UserGet ?un,
                UserUpdate 3 (SetUsername ?un), RandomBytes 32,
                UserCreate ?un ?pw (ascii ''manager''), Issue 4]\<rparr>)"
    by code_simp
  from failed_rename_then_create [OF h] r b show ?thesis by (simp add: Let_def)
qed

end
